theory Spec2Isabelle
  imports Main
begin

section \<open>The page: slides, indicators, navigation buttons\<close>

text \<open>
  The slider (\<^verbatim>\<open>src/script.js\<close>, and the earlier variant of the same script kept in
  \<^verbatim>\<open>index.js\<close>) works on the elements of one page. Only the parts of an element
  that the script reads or writes are kept: the \<^verbatim>\<open>active\<close> class, the attributes
  \<^verbatim>\<open>id\<close>, \<^verbatim>\<open>data-slide\<close>, \<^verbatim>\<open>aria-selected\<close>, \<^verbatim>\<open>aria-disabled\<close>, the property
  \<^verbatim>\<open>disabled\<close>, and the scroll metrics of a slide's first \<^verbatim>\<open>.slide-content\<close>
  descendant. An attribute that is absent is \<open>None\<close> (\<^verbatim>\<open>getAttribute\<close> returns
  \<^verbatim>\<open>null\<close>). Numbers of the script (slide numbers, pixel coordinates, wheel deltas)
  are integers here.
\<close>

record region =
  scrollTop :: int
  scrollHeight :: int
  clientHeight :: int

record slide =
  slide_active :: bool
  slide_id :: "string option"
  slide_data :: "string option"
  slide_content :: "region option"

record indicator =
  ind_active :: bool
  ind_data :: "string option"
  aria_selected :: "string option"

record button =
  disabled :: bool
  aria_disabled :: "string option"

text \<open>
  A timer callback of the script is one of two closures: the one of \<^verbatim>\<open>goToSlide\<close>
  that releases the transition lock, and the one of the wheel listener, which has
  captured the wheel event and reads its \<^verbatim>\<open>deltaY\<close> when it runs.
\<close>

datatype callback = Unlock | WheelFire int

record timer =
  tid :: nat
  due :: nat
  cb :: callback

text \<open>
  The whole state the script can see or change: its \<^verbatim>\<open>state\<close> object, the elements
  behind \<^verbatim>\<open>elements\<close> (the cached node lists are the document's own elements, in
  document order), the closure variables of the wheel and touch listeners, and the
  browser around them: the fragment of the URL, the entries pushed to the history,
  the viewport width, the pending timers and a clock in milliseconds.
\<close>

record world =
  currentSlide :: int
  isAnimating :: bool
  totalSlides :: int
  slideIdMap :: "string \<rightharpoonup> int"
  slides :: "slide list"
  indicators :: "indicator list"
  prevBtn :: "button option"
  nextBtn :: "button option"
  container :: bool
  scrollTimeout :: "nat option"
  touchStartX :: int
  touchStartY :: int
  touchEndX :: int
  touchEndY :: int
  isSwiping :: bool
  location_hash :: string
  pushed :: "string list"
  innerWidth :: int
  timers :: "timer list"
  nextTimerId :: nat
  clock :: nat

text \<open>
  A call either returns, or stops at an uncaught \<^verbatim>\<open>TypeError\<close> (a property of
  \<^verbatim>\<open>null\<close> is read when a navigation button or the slider container is missing).
  Both carry the world as the call left it: what was written before the fault stays
  written.
\<close>

datatype outcome = Done world | Fault world

fun world_of :: "outcome \<Rightarrow> world" where
  "world_of (Done w) = w"
| "world_of (Fault w) = w"

fun returned :: "outcome \<Rightarrow> bool" where
  "returned (Done w) = True"
| "returned (Fault w) = False"

definition CONFIG_transitionDuration :: nat where
  "CONFIG_transitionDuration = 600"

definition CONFIG_scrollThrottle :: nat where
  "CONFIG_scrollThrottle = 50"

definition CONFIG_swipeThreshold :: int where
  "CONFIG_swipeThreshold = 50"

definition SCROLL_SAFEZONE :: int where
  "SCROLL_SAFEZONE = 800"

section \<open>Strings of numbers, truthiness, selectors\<close>

text \<open>
  The template literal \<^verbatim>\<open>`${slideNumber}`\<close> writes an integer in decimal, with a
  leading minus sign when it is negative.
\<close>

definition digit_char :: "nat \<Rightarrow> char" where
  "digit_char d = char_of (48 + d)"

fun string_of_nat :: "nat \<Rightarrow> string" where
  "string_of_nat n =
     (if n < 10 then [digit_char n]
      else string_of_nat (n div 10) @ [digit_char (n mod 10)])"

declare string_of_nat.simps [simp del]

definition string_of_int :: "int \<Rightarrow> string" where
  "string_of_int i =
     (if i < 0 then CHR ''-'' # string_of_nat (nat (- i)) else string_of_nat (nat i))"

definition bool_toString :: "bool \<Rightarrow> string" where
  "bool_toString b = (if b then ''true'' else ''false'')"

text \<open>
  \<^verbatim>\<open>if (slideId)\<close> on the result of \<^verbatim>\<open>getAttribute\<close>: \<^verbatim>\<open>null\<close> and the empty
  string are falsy.
\<close>

definition truthy :: "string option \<Rightarrow> bool" where
  "truthy a = (case a of None \<Rightarrow> False | Some s \<Rightarrow> s \<noteq> [])"

text \<open>
  \<^verbatim>\<open>document.querySelector(sel)\<close> is the first element in document order that matches;
  a write through the element it returns changes that element of the document.
\<close>

fun update_first :: "('a \<Rightarrow> bool) \<Rightarrow> ('a \<Rightarrow> 'a) \<Rightarrow> 'a list \<Rightarrow> 'a list" where
  "update_first P f [] = []"
| "update_first P f (x # xs) = (if P x then f x # xs else x # update_first P f xs)"

definition slide_selector :: "int \<Rightarrow> slide \<Rightarrow> bool" where
  "slide_selector n s = (slide_data s = Some (string_of_int n))"

definition indicator_selector :: "int \<Rightarrow> indicator \<Rightarrow> bool" where
  "indicator_selector n i = (ind_data i = Some (string_of_int n))"

text \<open>
  \<^verbatim>\<open>parseInt(s, 10)\<close>: leading white space, an optional sign, then the longest run
  of decimal digits; \<open>None\<close> stands for \<^verbatim>\<open>NaN\<close> (no digit there). A missing attribute
  is the string \<^verbatim>\<open>"null"\<close>, hence \<^verbatim>\<open>NaN\<close> too.
\<close>

definition is_digit :: "char \<Rightarrow> bool" where
  "is_digit c = (48 \<le> (of_char c :: nat) \<and> (of_char c :: nat) \<le> 57)"

definition is_space :: "char \<Rightarrow> bool" where
  "is_space c = ((of_char c :: nat) \<in> {9, 10, 11, 12, 13, 32})"

definition digits_value :: "string \<Rightarrow> nat" where
  "digits_value ds = fold (\<lambda>c a. 10 * a + ((of_char c :: nat) - 48)) ds 0"

definition parseInt :: "string option \<Rightarrow> int option" where
  "parseInt a =
     (case a of
        None \<Rightarrow> None
      | Some s \<Rightarrow>
          (let s1 = dropWhile is_space s;
               neg = (s1 \<noteq> [] \<and> hd s1 = CHR ''-'');
               s2 = (if s1 \<noteq> [] \<and> (hd s1 = CHR ''-'' \<or> hd s1 = CHR ''+'') then tl s1 else s1);
               ds = takeWhile is_digit s2
           in if ds = [] then None
              else Some (if neg then - int (digits_value ds) else int (digits_value ds))))"

section \<open>Timers\<close>

text \<open>
  \<^verbatim>\<open>setTimeout(cb, delay)\<close> queues the callback for \<open>delay\<close> milliseconds from now
  and returns a fresh identifier; \<^verbatim>\<open>clearTimeout(id)\<close> removes the timer with that
  identifier, and does nothing for \<^verbatim>\<open>undefined\<close> or an identifier no longer pending.
\<close>

definition setTimeout :: "callback \<Rightarrow> nat \<Rightarrow> world \<Rightarrow> nat \<times> world" where
  "setTimeout c delay w =
     (nextTimerId w,
      w\<lparr>timers := timers w @ [\<lparr>tid = nextTimerId w, due = clock w + delay, cb = c\<rparr>],
        nextTimerId := Suc (nextTimerId w)\<rparr>)"

definition clearTimeout :: "nat option \<Rightarrow> world \<Rightarrow> world" where
  "clearTimeout h w =
     (case h of
        None \<Rightarrow> w
      | Some i \<Rightarrow> w\<lparr>timers := filter (\<lambda>t. tid t \<noteq> i) (timers w)\<rparr>)"

section \<open>The slider's operations\<close>

text \<open>\<^verbatim>\<open>cacheElements\<close>: the node lists are the world's own; the slide count is stored.\<close>

definition cacheElements :: "world \<Rightarrow> world" where
  "cacheElements w = w\<lparr>totalSlides := int (length (slides w))\<rparr>"

text \<open>\<^verbatim>\<open>createSlideIdMap\<close>: a later slide with the same id overwrites an earlier one.\<close>

fun slideIdMap_loop :: "slide list \<Rightarrow> nat \<Rightarrow> (string \<rightharpoonup> int) \<Rightarrow> (string \<rightharpoonup> int)" where
  "slideIdMap_loop [] index m = m"
| "slideIdMap_loop (s # ss) index m =
     slideIdMap_loop ss (Suc index)
       (if truthy (slide_id s) then m(the (slide_id s) \<mapsto> int index + 1) else m)"

definition createSlideIdMap :: "world \<Rightarrow> world" where
  "createSlideIdMap w = w\<lparr>slideIdMap := slideIdMap_loop (slides w) 0 (slideIdMap w)\<rparr>"

definition isValidSlideNumber :: "int \<Rightarrow> world \<Rightarrow> bool" where
  "isValidSlideNumber slideNumber w = (slideNumber \<ge> 1 \<and> slideNumber \<le> totalSlides w)"

definition updateAriaAttributes :: "int \<Rightarrow> world \<Rightarrow> world" where
  "updateAriaAttributes slideNumber w =
     w\<lparr>indicators :=
         map (\<lambda>(index, i). i\<lparr>aria_selected := Some (bool_toString (int index + 1 = slideNumber))\<rparr>)
           (enumerate 0 (indicators w))\<rparr>"

definition pushState :: "string \<Rightarrow> world \<Rightarrow> world" where
  "pushState url w = w\<lparr>location_hash := url, pushed := pushed w @ [url]\<rparr>"

definition updateURL :: "int \<Rightarrow> world \<Rightarrow> world" where
  "updateURL slideNumber w =
     (let slideEl = find (slide_selector slideNumber) (slides w);
          slideId = (case slideEl of None \<Rightarrow> None | Some s \<Rightarrow> slide_id s)
      in if truthy slideId then pushState (CHR ''#'' # the slideId) w else w)"

text \<open>
  \<^verbatim>\<open>updateNavigationButtons\<close> writes \<^verbatim>\<open>prevBtn.disabled\<close>, then \<^verbatim>\<open>nextBtn.disabled\<close>,
  then the two \<^verbatim>\<open>aria-disabled\<close> attributes; the first missing button stops it.
\<close>

definition updateNavigationButtons :: "world \<Rightarrow> outcome" where
  "updateNavigationButtons w =
     (let isFirstSlide = (currentSlide w = 1);
          isLastSlide = (currentSlide w = totalSlides w)
      in case prevBtn w of
           None \<Rightarrow> Fault w
         | Some p \<Rightarrow>
             (let w1 = w\<lparr>prevBtn := Some (p\<lparr>disabled := isFirstSlide\<rparr>)\<rparr>
              in case nextBtn w1 of
                   None \<Rightarrow> Fault w1
                 | Some n \<Rightarrow>
                     Done (w1\<lparr>nextBtn := Some (n\<lparr>disabled := isLastSlide,
                                                  aria_disabled := Some (bool_toString isLastSlide)\<rparr>),
                              prevBtn := Some (p\<lparr>disabled := isFirstSlide,
                                                  aria_disabled := Some (bool_toString isFirstSlide)\<rparr>)\<rparr>)))"

definition clear_active :: "world \<Rightarrow> world" where
  "clear_active w =
     w\<lparr>slides := map (\<lambda>s. s\<lparr>slide_active := False\<rparr>) (slides w),
       indicators := map (\<lambda>i. i\<lparr>ind_active := False\<rparr>) (indicators w)\<rparr>"

definition add_active :: "int \<Rightarrow> world \<Rightarrow> world" where
  "add_active slideNumber w =
     w\<lparr>slides := update_first (slide_selector slideNumber) (\<lambda>s. s\<lparr>slide_active := True\<rparr>) (slides w),
       indicators :=
         update_first (indicator_selector slideNumber) (\<lambda>i. i\<lparr>ind_active := True\<rparr>) (indicators w)\<rparr>"

definition schedule_unlock :: "world \<Rightarrow> world" where
  "schedule_unlock w = snd (setTimeout Unlock CONFIG_transitionDuration w)"

text \<open>
  \<^verbatim>\<open>goToSlide\<close>, in the order of the source: the guard, the lock, the classes, the
  current slide, the buttons, the ARIA attributes, the URL, the timer.
\<close>

definition goToSlide :: "int \<Rightarrow> world \<Rightarrow> outcome" where
  "goToSlide slideNumber w =
     (if isAnimating w \<or> \<not> isValidSlideNumber slideNumber w then Done w
      else
        (let w1 = w\<lparr>isAnimating := True\<rparr>;
             w2 = clear_active w1;
             w3 = add_active slideNumber w2;
             w4 = w3\<lparr>currentSlide := slideNumber\<rparr>
         in case updateNavigationButtons w4 of
              Fault w5 \<Rightarrow> Fault w5
            | Done w5 \<Rightarrow>
                Done (schedule_unlock (updateURL slideNumber (updateAriaAttributes slideNumber w5)))))"

definition goToPreviousSlide :: "world \<Rightarrow> outcome" where
  "goToPreviousSlide w =
     (if currentSlide w > 1 then goToSlide (currentSlide w - 1) w else Done w)"

definition goToNextSlide :: "world \<Rightarrow> outcome" where
  "goToNextSlide w =
     (if currentSlide w < totalSlides w then goToSlide (currentSlide w + 1) w else Done w)"

text \<open>\<^verbatim>\<open>if (slideNumber)\<close>: an unknown id gives \<^verbatim>\<open>undefined\<close>, and 0 is falsy as well.\<close>

definition goToSlideById :: "string \<Rightarrow> world \<Rightarrow> outcome" where
  "goToSlideById slideId w =
     (case slideIdMap w slideId of
        None \<Rightarrow> Done w
      | Some slideNumber \<Rightarrow> if slideNumber \<noteq> 0 then goToSlide slideNumber w else Done w)"

section \<open>Listeners\<close>

text \<open>
  The wheel listener of \<^verbatim>\<open>script.js\<close>. Its guards return before the pending timer
  is cleared. The listener of the variant in \<^verbatim>\<open>index.js\<close> has no guard.
\<close>

definition wheel_blocked :: "int \<Rightarrow> region \<Rightarrow> bool" where
  "wheel_blocked deltaY r =
     (let isAtTop = (scrollTop r \<le> SCROLL_SAFEZONE);
          isAtBottom = (scrollTop r + clientHeight r \<ge> scrollHeight r - SCROLL_SAFEZONE)
      in (deltaY > 0 \<and> \<not> isAtBottom) \<or> (deltaY < 0 \<and> \<not> isAtTop))"

definition active_content :: "world \<Rightarrow> region option" where
  "active_content w =
     (case find slide_active (slides w) of None \<Rightarrow> None | Some s \<Rightarrow> slide_content s)"

definition rearm :: "int \<Rightarrow> world \<Rightarrow> world" where
  "rearm deltaY w =
     (let w1 = clearTimeout (scrollTimeout w) w;
          (h, w2) = setTimeout (WheelFire deltaY) CONFIG_scrollThrottle w1
      in w2\<lparr>scrollTimeout := Some h\<rparr>)"

definition wheel_listener :: "int \<Rightarrow> world \<Rightarrow> world" where
  "wheel_listener deltaY w =
     (if innerWidth w \<le> 768 then w
      else case active_content w of
             None \<Rightarrow> rearm deltaY w
           | Some r \<Rightarrow> if wheel_blocked deltaY r then w else rearm deltaY w)"

definition wheel_listener_index :: "int \<Rightarrow> world \<Rightarrow> world" where
  "wheel_listener_index deltaY w = rearm deltaY w"

text \<open>
  The touch listeners of \<^verbatim>\<open>script.js\<close> (horizontal swipes). The two booleans of a
  touch-start say whether \<^verbatim>\<open>event.target.closest('.navigation')\<close> and
  \<^verbatim>\<open>event.target.closest('.slide-indicators')\<close> find an element.
\<close>

definition handleSwipe :: "int \<Rightarrow> int \<Rightarrow> int \<Rightarrow> int \<Rightarrow> world \<Rightarrow> outcome" where
  "handleSwipe startX startY endX endY w =
     (let diffX = startX - endX;
          diffY = startY - endY;
          absDiffX = \<bar>diffX\<bar>;
          absDiffY = \<bar>diffY\<bar>
      in if absDiffX > absDiffY \<and> absDiffX > CONFIG_swipeThreshold
         then (if diffX > 0 then goToNextSlide w else goToPreviousSlide w)
         else Done w)"

definition touchstart_listener :: "bool \<Rightarrow> bool \<Rightarrow> int \<Rightarrow> int \<Rightarrow> world \<Rightarrow> world" where
  "touchstart_listener in_navigation in_indicators x y w =
     (if in_navigation \<or> in_indicators then w
      else w\<lparr>touchStartX := x, touchStartY := y, isSwiping := False\<rparr>)"

definition touchmove_listener :: "world \<Rightarrow> world" where
  "touchmove_listener w = (if \<not> isSwiping w then w\<lparr>isSwiping := True\<rparr> else w)"

definition touchend_listener :: "int \<Rightarrow> int \<Rightarrow> world \<Rightarrow> outcome" where
  "touchend_listener x y w =
     (if \<not> isSwiping w then Done w
      else
        (let w1 = w\<lparr>touchEndX := x, touchEndY := y\<rparr>
         in handleSwipe (touchStartX w1) (touchStartY w1) (touchEndX w1) (touchEndY w1) w1))"

text \<open>The touch listeners of the variant in \<^verbatim>\<open>index.js\<close> (vertical swipes).\<close>

definition handleSwipe_index :: "int \<Rightarrow> int \<Rightarrow> world \<Rightarrow> outcome" where
  "handleSwipe_index startY endY w =
     (let diff = startY - endY
      in if \<bar>diff\<bar> > CONFIG_swipeThreshold
         then (if diff > 0 then goToNextSlide w else goToPreviousSlide w)
         else Done w)"

definition touchstart_listener_index :: "int \<Rightarrow> world \<Rightarrow> world" where
  "touchstart_listener_index y w = w\<lparr>touchStartY := y\<rparr>"

definition touchend_listener_index :: "int \<Rightarrow> world \<Rightarrow> outcome" where
  "touchend_listener_index y w =
     (let w1 = w\<lparr>touchEndY := y\<rparr> in handleSwipe_index (touchStartY w1) (touchEndY w1) w1)"

definition keydown_listener :: "string \<Rightarrow> world \<Rightarrow> outcome" where
  "keydown_listener key w =
     (if key = ''ArrowLeft'' \<or> key = ''ArrowUp'' then goToPreviousSlide w
      else if key = ''ArrowRight'' \<or> key = ''ArrowDown'' then goToNextSlide w
      else Done w)"

definition indicator_click :: "nat \<Rightarrow> world \<Rightarrow> outcome" where
  "indicator_click k w =
     (if k < length (indicators w)
      then (case parseInt (ind_data (indicators w ! k)) of
              None \<Rightarrow> Done w
            | Some slideNumber \<Rightarrow> goToSlide slideNumber w)
      else Done w)"

text \<open>
  \<^verbatim>\<open>handleInitialHash\<close> and the \<^verbatim>\<open>hashchange\<close> listener have the same body:
  \<^verbatim>\<open>location.hash.substring(1)\<close>, then the lookup.
\<close>

definition handleInitialHash :: "world \<Rightarrow> outcome" where
  "handleInitialHash w =
     (let hash = drop 1 (location_hash w)
      in if hash \<noteq> [] \<and> (case slideIdMap w hash of None \<Rightarrow> False | Some n \<Rightarrow> n \<noteq> 0)
         then goToSlideById hash w else Done w)"

section \<open>Initialisation\<close>

text \<open>
  The module's initial values on a page that has just loaded: \<open>page\<close> carries the
  elements, the fragment and the viewport width; the script's own variables start as
  the source writes them.
\<close>

definition load_script :: "world \<Rightarrow> world" where
  "load_script page =
     page\<lparr>currentSlide := 1, isAnimating := False, totalSlides := 0, slideIdMap := Map.empty,
          scrollTimeout := None, touchStartX := 0, touchStartY := 0, touchEndX := 0,
          touchEndY := 0, isSwiping := False, pushed := [], timers := [], nextTimerId := 0\<rparr>"

text \<open>
  \<^verbatim>\<open>setupEventListeners\<close> changes nothing that is modelled, but it stops at a
  missing button (\<^verbatim>\<open>setupNavigationListeners\<close>) or, in \<^verbatim>\<open>script.js\<close>, at a missing
  \<^verbatim>\<open>.slider-container\<close> (\<^verbatim>\<open>setupTouchNavigation\<close>).
\<close>

datatype variant = ScriptJs | IndexJs

definition setupEventListeners :: "variant \<Rightarrow> world \<Rightarrow> outcome" where
  "setupEventListeners v w =
     (if prevBtn w = None \<or> nextBtn w = None then Fault w
      else if v = ScriptJs \<and> \<not> container w then Fault w
      else Done w)"

definition init :: "variant \<Rightarrow> world \<Rightarrow> outcome" where
  "init v w =
     (case updateNavigationButtons (createSlideIdMap (cacheElements w)) of
        Fault w1 \<Rightarrow> Fault w1
      | Done w1 \<Rightarrow> setupEventListeners v w1)"

section \<open>The event loop\<close>

text \<open>
  One step of the browser: an input event runs its listener, a call of the public API
  runs the function, a millisecond passes and the timers that are due run in the
  order they were set. An uncaught fault ends the listener and leaves the world as it
  is then. \<open>Resize\<close> and \<open>Scrolled\<close> are the user changing the viewport width and the
  metrics of a slide's scrollable region.
\<close>

definition run_callback :: "callback \<Rightarrow> world \<Rightarrow> world" where
  "run_callback c w =
     (case c of
        Unlock \<Rightarrow> w\<lparr>isAnimating := False\<rparr>
      | WheelFire deltaY \<Rightarrow>
          world_of (if deltaY > 0 then goToNextSlide w else goToPreviousSlide w))"

definition fire :: "nat \<Rightarrow> world \<Rightarrow> world" where
  "fire h w =
     (case find (\<lambda>t. tid t = h) (timers w) of
        None \<Rightarrow> w
      | Some t \<Rightarrow> run_callback (cb t) (w\<lparr>timers := filter (\<lambda>t. tid t \<noteq> h) (timers w)\<rparr>))"

definition tick :: "world \<Rightarrow> world" where
  "tick w =
     (let w1 = w\<lparr>clock := Suc (clock w)\<rparr>
      in fold fire (map tid (filter (\<lambda>t. due t \<le> clock w1) (timers w1))) w1)"

fun advance :: "nat \<Rightarrow> world \<Rightarrow> world" where
  "advance 0 w = w"
| "advance (Suc n) w = advance n (tick w)"

datatype event =
    ClickPrev
  | ClickNext
  | ClickMobileNext
  | ClickIndicator nat
  | KeyDown string
  | Wheel int
  | TouchStart bool bool int int
  | TouchMove
  | TouchEnd int int
  | HashChange string
  | Load
  | CallGoToSlide int
  | CallGoToSlideById string
  | Resize int
  | Scrolled nat region
  | Tick

definition set_region :: "nat \<Rightarrow> region \<Rightarrow> world \<Rightarrow> world" where
  "set_region k r w =
     (if k < length (slides w) \<and> slide_content (slides w ! k) \<noteq> None
      then w\<lparr>slides := (slides w)[k := (slides w ! k)\<lparr>slide_content := Some r\<rparr>]\<rparr>
      else w)"

fun step :: "variant \<Rightarrow> event \<Rightarrow> world \<Rightarrow> world" where
  "step v ClickPrev w = world_of (goToPreviousSlide w)"
| "step v ClickNext w = world_of (goToNextSlide w)"
| "step v ClickMobileNext w = (if v = ScriptJs then world_of (goToNextSlide w) else w)"
| "step v (ClickIndicator k) w = world_of (indicator_click k w)"
| "step v (KeyDown key) w = world_of (keydown_listener key w)"
| "step v (Wheel deltaY) w =
     (if v = ScriptJs then wheel_listener deltaY w else wheel_listener_index deltaY w)"
| "step v (TouchStart nav ind x y) w =
     (if v = ScriptJs then touchstart_listener nav ind x y w else touchstart_listener_index y w)"
| "step v TouchMove w = (if v = ScriptJs then touchmove_listener w else w)"
| "step v (TouchEnd x y) w =
     world_of (if v = ScriptJs then touchend_listener x y w else touchend_listener_index y w)"
| "step v (HashChange h) w = world_of (handleInitialHash (w\<lparr>location_hash := h\<rparr>))"
| "step v Load w = world_of (handleInitialHash w)"
| "step v (CallGoToSlide n) w = world_of (goToSlide n w)"
| "step v (CallGoToSlideById i) w = world_of (goToSlideById i w)"
| "step v (Resize width) w = w\<lparr>innerWidth := width\<rparr>"
| "step v (Scrolled k r) w = set_region k r w"
| "step v Tick w = tick w"

definition run :: "variant \<Rightarrow> event list \<Rightarrow> world \<Rightarrow> world" where
  "run v evs w = fold (step v) evs w"

section \<open>What the properties are stated with\<close>

text \<open>The 1-based positions of the elements that carry the \<^verbatim>\<open>active\<close> class.\<close>

definition active_positions :: "bool list \<Rightarrow> int list" where
  "active_positions bs = map (\<lambda>k. int k + 1) (filter (\<lambda>k. bs ! k) [0..<length bs])"

definition active_slides :: "world \<Rightarrow> int list" where
  "active_slides w = active_positions (map slide_active (slides w))"

definition active_indicators :: "world \<Rightarrow> int list" where
  "active_indicators w = active_positions (map ind_active (indicators w))"

text \<open>
  Modelled from the spec: the page's markup (\<^verbatim>\<open>index.html\<close>) is not among the
  sources. The DOM contract of the spec gives every slide and every indicator the
  attribute \<^verbatim>\<open>data-slide\<close> with its 1-indexed position, one indicator per slide.
\<close>

definition numbered :: "string option list \<Rightarrow> bool" where
  "numbered ds = (ds = map (\<lambda>k. Some (string_of_int (int k + 1))) [0..<length ds])"

definition markup_numbered :: "world \<Rightarrow> bool" where
  "markup_numbered page =
     (length (indicators page) = length (slides page) \<and>
      numbered (map slide_data (slides page)) \<and>
      numbered (map ind_data (indicators page)))"

text \<open>
  Modelled from the spec: the page's markup is not among the sources. The data model
  of the spec starts at \<open>currentSlide = 1\<close> with one active slide and indicator, so
  the markup marks the first slide and the first indicator active, and no other.
\<close>

definition markup_first_active :: "world \<Rightarrow> bool" where
  "markup_first_active page =
     (slides page \<noteq> [] \<and> active_slides page = [1] \<and> active_indicators page = [1])"

text \<open>The world once \<^verbatim>\<open>init\<close> has run on a page, and whether it ran to its end.\<close>

definition boot :: "variant \<Rightarrow> world \<Rightarrow> world" where
  "boot v page = world_of (init v (load_script page))"

definition boots :: "variant \<Rightarrow> world \<Rightarrow> bool" where
  "boots v page = returned (init v (load_script page))"

text \<open>
  The steps of \<^verbatim>\<open>goToSlide\<close> in the order in which the specification lists them
  (the lock after the current slide), to be compared with the source's order.
\<close>

definition goToSlide_spec :: "int \<Rightarrow> world \<Rightarrow> outcome" where
  "goToSlide_spec n w =
     (if isAnimating w \<or> n < 1 \<or> totalSlides w < n then Done w
      else
        (let w1 = clear_active w;
             w2 = add_active n w1;
             w3 = w2\<lparr>currentSlide := n\<rparr>;
             w4 = w3\<lparr>isAnimating := True\<rparr>
         in case updateNavigationButtons w4 of
              Fault w5 \<Rightarrow> Fault w5
            | Done w5 \<Rightarrow>
                Done (schedule_unlock (updateURL n (updateAriaAttributes n w5)))))"

text \<open>
  A burst of wheel events: each event comes with the milliseconds that have passed
  since the one before it.
\<close>

fun burst :: "variant \<Rightarrow> (nat \<times> int) list \<Rightarrow> world \<Rightarrow> world" where
  "burst v [] w = w"
| "burst v ((gap, deltaY) # evs) w = burst v evs (step v (Wheel deltaY) (advance gap w))"

text \<open>Whether the wheel listener of a variant lets an event through to its timer.\<close>

definition accepts :: "variant \<Rightarrow> int \<Rightarrow> world \<Rightarrow> bool" where
  "accepts v deltaY w =
     (v = IndexJs \<or>
      (innerWidth w > 768 \<and>
       (case active_content w of None \<Rightarrow> True | Some r \<Rightarrow> \<not> wheel_blocked deltaY r)))"

text \<open>The navigation buttons mirror the position of the current slide.\<close>

definition buttons_reflect :: "world \<Rightarrow> bool" where
  "buttons_reflect w =
     (case (prevBtn w, nextBtn w) of
        (Some p, Some n) \<Rightarrow>
          disabled p = (currentSlide w = 1) \<and>
          aria_disabled p = Some (bool_toString (currentSlide w = 1)) \<and>
          disabled n = (currentSlide w = totalSlides w) \<and>
          aria_disabled n = Some (bool_toString (currentSlide w = totalSlides w))
      | _ \<Rightarrow> False)"

text \<open>
  What every step keeps true of the pending timers: identifiers are fresh and
  distinct, no timer is overdue, an unlock timer is pending only while the lock is
  held and at most one is, and a wheel timer is the one \<^verbatim>\<open>scrollTimeout\<close> names.
\<close>

definition is_unlock :: "timer \<Rightarrow> bool" where
  "is_unlock t = (cb t = Unlock)"

definition timers_ok :: "world \<Rightarrow> bool" where
  "timers_ok w =
     (distinct (map tid (timers w)) \<and>
      (\<forall>t \<in> set (timers w). tid t < nextTimerId w \<and> clock w < due t) \<and>
      (\<forall>t \<in> set (timers w).
          if is_unlock t
          then isAnimating w \<and> due t \<le> clock w + CONFIG_transitionDuration \<and>
               scrollTimeout w \<noteq> Some (tid t)
          else scrollTimeout w = Some (tid t) \<and> due t \<le> clock w + CONFIG_scrollThrottle) \<and>
      (\<forall>h. scrollTimeout w = Some h \<longrightarrow> h < nextTimerId w) \<and>
      length (filter is_unlock (timers w)) \<le> 1)"

text \<open>
  What every step keeps true of the elements on a page with numbered markup: the
  counts and the \<^verbatim>\<open>data-slide\<close> attributes stay, the buttons exist, the current slide
  is in range and it is the one active slide and indicator.
\<close>

definition dom_ok :: "world \<Rightarrow> bool" where
  "dom_ok w =
     (markup_numbered w \<and> totalSlides w = int (length (slides w)) \<and>
      prevBtn w \<noteq> None \<and> nextBtn w \<noteq> None)"

definition shows_current :: "world \<Rightarrow> bool" where
  "shows_current w =
     (active_slides w = [currentSlide w] \<and> active_indicators w = [currentSlide w])"

text \<open>
  What \<^verbatim>\<open>createSlideIdMap\<close> establishes: an id is mapped exactly when it is the
  non-empty id of a slide, and then to the position of a slide that carries it.
\<close>

definition idmap_ok :: "world \<Rightarrow> bool" where
  "idmap_ok w =
     (\<forall>i. case slideIdMap w i of
            None \<Rightarrow> i = [] \<or> Some i \<notin> set (map slide_id (slides w))
          | Some n \<Rightarrow> 1 \<le> n \<and> n \<le> int (length (slides w)) \<and> i \<noteq> [] \<and>
                      slide_id (slides w ! nat (n - 1)) = Some i)"

text \<open>
  Two worlds agree on everything a transition is judged by: the script's position,
  the id map, the classes and attributes of the elements, the buttons.
\<close>

definition same_view :: "world \<Rightarrow> world \<Rightarrow> bool" where
  "same_view w w' =
     (currentSlide w' = currentSlide w \<and> totalSlides w' = totalSlides w \<and>
      slideIdMap w' = slideIdMap w \<and>
      map slide_active (slides w') = map slide_active (slides w) \<and>
      map slide_id (slides w') = map slide_id (slides w) \<and>
      map slide_data (slides w') = map slide_data (slides w) \<and>
      indicators w' = indicators w \<and> prevBtn w' = prevBtn w \<and> nextBtn w' = nextBtn w \<and>
      pushed w' = pushed w)"

text \<open>
  A page for the examples: five slides with the ids \<^verbatim>\<open>s1\<close> to \<^verbatim>\<open>s5\<close>, the first one
  active and holding a scrollable region scrolled to its end, a desktop viewport.
\<close>

definition demo_slide :: "nat \<Rightarrow> slide" where
  "demo_slide k =
     \<lparr>slide_active = (k = 0),
      slide_id = Some (CHR ''s'' # string_of_int (int k + 1)),
      slide_data = Some (string_of_int (int k + 1)),
      slide_content =
        (if k = 0 then Some \<lparr>scrollTop = 3000, scrollHeight = 4000, clientHeight = 1000\<rparr>
         else None)\<rparr>"

definition demo_indicator :: "nat \<Rightarrow> indicator" where
  "demo_indicator k =
     \<lparr>ind_active = (k = 0), ind_data = Some (string_of_int (int k + 1)),
      aria_selected = Some (bool_toString (k = 0))\<rparr>"

definition demo_page :: world where
  "demo_page =
     \<lparr>currentSlide = 1, isAnimating = False, totalSlides = 0, slideIdMap = Map.empty,
      slides = map demo_slide [0, 1, 2, 3, 4],
      indicators = map demo_indicator [0, 1, 2, 3, 4],
      prevBtn = Some \<lparr>disabled = False, aria_disabled = None\<rparr>,
      nextBtn = Some \<lparr>disabled = False, aria_disabled = None\<rparr>,
      container = True, scrollTimeout = None,
      touchStartX = 0, touchStartY = 0, touchEndX = 0, touchEndY = 0, isSwiping = False,
      location_hash = [], pushed = [], innerWidth = 1280,
      timers = [], nextTimerId = 0, clock = 0\<rparr>"

section \<open>Proofs\<close>

subsection \<open>The example page\<close>

lemma demo_boots: "boots ScriptJs demo_page" "boots IndexJs demo_page"
  by code_simp+

lemma demo_boot_ScriptJs:
  "totalSlides (boot ScriptJs demo_page) = 5"
  "currentSlide (boot ScriptJs demo_page) = 1"
  "isAnimating (boot ScriptJs demo_page) = False"
  by code_simp+

lemma demo_last_slide:
  "currentSlide (world_of (goToSlide 5 (boot ScriptJs demo_page))) = 5"
  "totalSlides (world_of (goToSlide 5 (boot ScriptJs demo_page))) = 5"
  by code_simp+

subsection \<open>The guard of \<^verbatim>\<open>goToSlide\<close> and the two wrappers\<close>

lemmas prim_defs = clear_active_def add_active_def updateAriaAttributes_def updateURL_def
  pushState_def schedule_unlock_def setTimeout_def updateNavigationButtons_def

lemma goToSlide_noop:
  "isAnimating w \<or> n < 1 \<or> totalSlides w < n \<Longrightarrow> goToSlide n w = Done w"
  by (auto simp: goToSlide_def isValidSlideNumber_def)

lemma goToSlide_locks:
  "\<not> isAnimating w \<Longrightarrow> 1 \<le> n \<Longrightarrow> n \<le> totalSlides w \<Longrightarrow> isAnimating (world_of (goToSlide n w))"
  by (simp add: goToSlide_def isValidSlideNumber_def Let_def prim_defs split: option.splits)

text \<open>
  C2. While the lock is held, or for a slide number outside \<open>[1, totalSlides]\<close>,
  \<^verbatim>\<open>goToSlide\<close> returns normally and leaves the whole world as it was. A call that was
  accepted holds the lock, so the call after it is ignored whatever its target.
\<close>

theorem goToSlide_ignored:
  "(isAnimating w \<or> n < 1 \<or> totalSlides w < n \<longrightarrow> goToSlide n w = Done w) \<and>
   (\<not> isAnimating w \<and> 1 \<le> n \<and> n \<le> totalSlides w \<longrightarrow>
      goToSlide m (world_of (goToSlide n w)) = Done (world_of (goToSlide n w)))"
  using goToSlide_noop goToSlide_locks by blast

theorem goToSlide_ignored_witness:
  "(isAnimating (boot ScriptJs demo_page) \<or> (9::int) < 1 \<or>
      totalSlides (boot ScriptJs demo_page) < 9) \<and>
   goToSlide 9 (boot ScriptJs demo_page) = Done (boot ScriptJs demo_page) \<and>
   (\<not> isAnimating (boot ScriptJs demo_page) \<and> (1::int) \<le> 2 \<and>
      2 \<le> totalSlides (boot ScriptJs demo_page)) \<and>
   goToSlide 4 (world_of (goToSlide 2 (boot ScriptJs demo_page))) =
     Done (world_of (goToSlide 2 (boot ScriptJs demo_page)))"
  using goToSlide_ignored [of "boot ScriptJs demo_page" 9]
    goToSlide_ignored [of "boot ScriptJs demo_page" 2 4]
  by (simp add: demo_boot_ScriptJs)

text \<open>
  C4. \<^verbatim>\<open>goToPreviousSlide\<close> and \<^verbatim>\<open>goToNextSlide\<close> are \<^verbatim>\<open>goToSlide\<close> at the
  neighbouring slide number; at the first slide the former, at the last slide the
  latter, returns with the world unchanged.
\<close>

theorem previous_next_guarded:
  "goToPreviousSlide w = goToSlide (currentSlide w - 1) w \<and>
   goToNextSlide w = goToSlide (currentSlide w + 1) w \<and>
   (currentSlide w = 1 \<longrightarrow> goToPreviousSlide w = Done w) \<and>
   (currentSlide w = totalSlides w \<longrightarrow> goToNextSlide w = Done w)"
  by (auto simp: goToPreviousSlide_def goToNextSlide_def goToSlide_def isValidSlideNumber_def)

theorem previous_next_guarded_witness:
  "currentSlide (boot ScriptJs demo_page) = 1 \<and>
   goToPreviousSlide (boot ScriptJs demo_page) = Done (boot ScriptJs demo_page) \<and>
   currentSlide (world_of (goToSlide 5 (boot ScriptJs demo_page))) =
     totalSlides (world_of (goToSlide 5 (boot ScriptJs demo_page))) \<and>
   goToNextSlide (world_of (goToSlide 5 (boot ScriptJs demo_page))) =
     Done (world_of (goToSlide 5 (boot ScriptJs demo_page)))"
proof -
  have first: "currentSlide (boot ScriptJs demo_page) = 1"
    by (simp add: demo_boot_ScriptJs)
  have last: "currentSlide (world_of (goToSlide 5 (boot ScriptJs demo_page))) =
      totalSlides (world_of (goToSlide 5 (boot ScriptJs demo_page)))"
    by (simp add: demo_last_slide)
  from first have "goToPreviousSlide (boot ScriptJs demo_page) = Done (boot ScriptJs demo_page)"
    using previous_next_guarded [of "boot ScriptJs demo_page"] by blast
  moreover from last have "goToNextSlide (world_of (goToSlide 5 (boot ScriptJs demo_page))) =
      Done (world_of (goToSlide 5 (boot ScriptJs demo_page)))"
    using previous_next_guarded [of "world_of (goToSlide 5 (boot ScriptJs demo_page))"] by blast
  ultimately show ?thesis using first last by blast
qed

end
